theory Spec2Isabelle
  imports Main
begin

section \<open>Data model (backend/main.py, lines 11-31)\<close>

text \<open>
  The three pydantic models. A QA pair travels as \<open>Dict[str, str]\<close> (line 26), so it is
  a map from keys to strings and either key may be absent. The field \<open>category\<close> and
  the field \<open>tags\<close> of a label are written \<open>l_category\<close> and \<open>l_tags\<close>, since the
  infographic has fields of the same names. \<open>labeled_at\<close> is never inspected; it is a
  number of seconds here.
\<close>

type_synonym qa_dict = "string \<rightharpoonup> string"

type_synonym datetime = int

record Infographic =
  category :: string
  title :: string
  description :: string
  tags :: "string list"
  img_url :: string

record Label =
  infographic_title :: string
  l_category :: string
  l_tags :: "string list"
  qa_pairs :: "qa_dict list"
  labeled_by :: string
  labeled_at :: datetime

text \<open>
  \<open>lifespan_data\<close> between start-up and shutdown: the two lists under the keys
  \<open>"infographics"\<close> and \<open>"labels"\<close>. Labels always have the shape of \<open>Label\<close>,
  since \<open>add_label\<close> is the only writer and stores \<open>label.model_dump()\<close>. In this record
  the catalog is a list of entries of the shape of \<open>Infographic\<close>, the Items of the data
  model. What a reload stores is not checked against that shape; the stored catalog as
  an arbitrary JSON value, and the query on it, come with the loader below, and
  \<open>get_unlabeled_raw_stored\<close> relates the two.
\<close>

record lifespan_data =
  infographics :: "Infographic list"
  labels :: "Label list"

datatype http_error = HTTPException nat string

text \<open>Truth value of an \<open>Optional[str]\<close>: \<open>None\<close> and the empty string are false.\<close>

definition truthy :: "string option \<Rightarrow> bool" where
  "truthy v = (case v of None \<Rightarrow> False | Some s \<Rightarrow> s \<noteq> [])"

section \<open>Queries and mutations (backend/main.py, lines 67-120)\<close>

definition get_unlabeled_infographics ::
  "string option \<Rightarrow> lifespan_data \<Rightarrow> Infographic list" where
  "get_unlabeled_infographics cat st =
     (let labeled_titles = set (map infographic_title (labels st));
          unlabeled_infos = filter (\<lambda>info. title info \<notin> labeled_titles) (infographics st)
      in if truthy cat then filter (\<lambda>info. Some (category info) = cat) unlabeled_infos
         else unlabeled_infos)"

definition add_infographic :: "Infographic \<Rightarrow> lifespan_data \<Rightarrow> string \<times> lifespan_data" where
  "add_infographic infographic st =
     (''Infographic added successfully'',
      st\<lparr>infographics := infographics st @ [infographic]\<rparr>)"

text \<open>
  The validation loop of \<open>add_label\<close> (lines 86-91): the first pair whose question or
  answer is missing or empty raises; when the loop runs out, nothing is raised.
\<close>

fun check_qa_pairs :: "qa_dict list \<Rightarrow> http_error + unit" where
  "check_qa_pairs [] = Inr ()"
| "check_qa_pairs (qa # qas) =
     (if \<not> truthy (qa ''question'') \<or> \<not> truthy (qa ''answer'')
      then Inl (HTTPException 400 ''Each QA pair must have both question and answer'')
      else check_qa_pairs qas)"

definition add_label :: "Label \<Rightarrow> lifespan_data \<Rightarrow> (http_error + string) \<times> lifespan_data" where
  "add_label label st =
     (case check_qa_pairs (qa_pairs label) of
        Inl e \<Rightarrow> (Inl e, st)
      | Inr _ \<Rightarrow> (Inr ''Label submitted successfully'', st\<lparr>labels := labels st @ [label]\<rparr>))"

text \<open>
  \<open>get_category_stats\<close> (lines 109-120). The loop runs over the set of categories of the
  catalog, each once, and stores one entry per category in the dictionary \<open>stats\<close>;
  \<open>stat_of\<close> is the body of the loop, and the order of the iteration does not matter to
  the dictionary (lemma \<open>fold_stats\<close> below). The
  counts are Python integers, so the difference is an \<open>int\<close> and may be negative.
  The keys \<open>"total"\<close>, \<open>"labeled"\<close> and \<open>"unlabeled"\<close> of an entry are the fields
  \<open>total_stat\<close>, \<open>labeled_stat\<close> and \<open>unlabeled_stat\<close>.
\<close>

record category_stat =
  total_stat :: int
  labeled_stat :: int
  unlabeled_stat :: int

definition stat_of :: "lifespan_data \<Rightarrow> string \<Rightarrow> category_stat" where
  "stat_of st c =
     (let total = int (length (filter (\<lambda>info. category info = c) (infographics st)));
          labeled = int (length (filter (\<lambda>label. l_category label = c) (labels st)))
      in \<lparr>total_stat = total, labeled_stat = labeled, unlabeled_stat = total - labeled\<rparr>)"

definition get_category_stats :: "lifespan_data \<Rightarrow> (string \<rightharpoonup> category_stat)" where
  "get_category_stats st =
     fold (\<lambda>c stats. stats(c \<mapsto> stat_of st c))
       (remdups (map category (infographics st))) Map.empty"

section \<open>JSON values (what \<open>json.load\<close> returns)\<close>

text \<open>
  The catalog comes from a file, and the loader stores what the file holds without
  looking at it. \<open>JObject\<close> lists the items of a Python dictionary in the dictionary's
  order, each key once. Numbers are integers here; a float behaves as an integer does in
  every operation below (it can be hashed, and it equals no string). \<open>is_infographic\<close>
  is the shape the class \<open>Infographic\<close> (lines 15-20) asks of an entry: four string
  fields and a list of strings.
\<close>

datatype json =
  JNull
| JBool bool
| JNumber int
| JString string
| JArray "json list"
| JObject "(string \<times> json) list"

fun dict_get :: "json \<Rightarrow> string \<Rightarrow> json option" where
  "dict_get (JObject kvs) k = map_of kvs k"
| "dict_get _ k = None"

fun is_str :: "json option \<Rightarrow> bool" where
  "is_str (Some (JString s)) = True"
| "is_str _ = False"

fun is_str_list :: "json option \<Rightarrow> bool" where
  "is_str_list (Some (JArray xs)) = list_all (\<lambda>x. is_str (Some x)) xs"
| "is_str_list _ = False"

definition is_infographic :: "json \<Rightarrow> bool" where
  "is_infographic j =
     (is_str (dict_get j ''category'') \<and> is_str (dict_get j ''title'') \<and>
      is_str (dict_get j ''description'') \<and> is_str_list (dict_get j ''tags'') \<and>
      is_str (dict_get j ''img_url''))"

text \<open>\<open>infographic.model_dump()\<close> (line 79): the dictionary of a validated entry.\<close>

definition model_dump :: "Infographic \<Rightarrow> json" where
  "model_dump info =
     JObject [(''category'', JString (category info)), (''title'', JString (title info)),
              (''description'', JString (description info)),
              (''tags'', JArray (map JString (tags info))),
              (''img_url'', JString (img_url info))]"

datatype py_exception =
  FileNotFoundError
| PermissionError
| UnicodeDecodeError
| JSONDecodeError
| KeyError string
| TypeError

text \<open>
  The Python operations the backend applies to such values. \<open>v[k]\<close> with a string key
  finds the entry of a dictionary or raises KeyError, and raises TypeError on every
  other value. A \<open>for\<close> loop runs over the elements of a list, the keys of a dictionary
  and the characters of a string, and raises TypeError on the rest. \<open>v not in s\<close> for a
  set \<open>s\<close> of strings hashes \<open>v\<close> first, which raises TypeError on a list and on a
  dictionary; a value that is not a string is in no set of strings.
\<close>

fun py_getitem :: "json \<Rightarrow> string \<Rightarrow> py_exception + json" where
  "py_getitem (JObject kvs) k =
     (case map_of kvs k of None \<Rightarrow> Inl (KeyError k) | Some v \<Rightarrow> Inr v)"
| "py_getitem _ k = Inl TypeError"




section \<open>Loading the catalog (backend/main.py, lines 33-42)\<close>

text \<open>
  The catalog source is the outcome of lines 37-38, \<open>open\<close> and \<open>json.load\<close>: the
  exception they raise, or the decoded document. Line 39 is \<open>metadata["metadata"]\<close>.
  The handler of lines 40-42 catches every exception of the body and returns the empty
  list; its \<open>print\<close> is left out.
\<close>

type_synonym source = "py_exception + json"

definition load_body :: "source \<Rightarrow> py_exception + json" where
  "load_body src =
     (case src of Inl e \<Rightarrow> Inl e | Inr metadata \<Rightarrow> py_getitem metadata ''metadata'')"

definition load_data_from_json :: "source \<Rightarrow> json" where
  "load_data_from_json src = (case load_body src of Inl e \<Rightarrow> JArray [] | Inr v \<Rightarrow> v)"

section \<open>The stored catalog as loaded (backend/main.py, lines 67-74 and 123-129)\<close>








section \<open>The form's submit handler (frontend/app.py, lines 152-207)\<close>

text \<open>
  The form builds each pair with both keys (line 169), so a form pair is a record; the
  backend class \<open>QAPair\<close> (lines 11-13) has the same two fields. \<open>strip\<close> is
  \<open>str.strip()\<close> on code points below 256.
\<close>

record QAPair =
  question :: string
  answer :: string

definition isspace :: "char \<Rightarrow> bool" where
  "isspace c =
     (c \<in> set [CHR 0x09, CHR 0x0A, CHR 0x0B, CHR 0x0C, CHR 0x0D, CHR 0x1C, CHR 0x1D,
               CHR 0x1E, CHR 0x1F, CHR 0x20, CHR 0x85, CHR 0xA0])"

definition strip :: "string \<Rightarrow> string" where
  "strip s = rev (dropWhile isspace (rev (dropWhile isspace s)))"

definition valid_qa_pairs :: "QAPair list \<Rightarrow> QAPair list" where
  "valid_qa_pairs pairs =
     filter (\<lambda>qa. strip (question qa) \<noteq> [] \<and> strip (answer qa) \<noteq> []) pairs"

definition qa_dict_of :: "QAPair \<Rightarrow> qa_dict" where
  "qa_dict_of qa = [''question'' \<mapsto> question qa, ''answer'' \<mapsto> answer qa]"

text \<open>
  Lines 189-202: the handler stops with an error when no valid pair is left, and posts
  the valid pairs otherwise.
\<close>

definition form_qa_pairs :: "QAPair list \<Rightarrow> string + qa_dict list" where
  "form_qa_pairs pairs =
     (let valid = valid_qa_pairs pairs
      in if valid = [] then Inl ''Please add at least one valid question-answer pair''
         else Inr (map qa_dict_of valid))"

section \<open>Concrete inputs\<close>

definition item :: "string \<Rightarrow> string \<Rightarrow> Infographic" where
  "item c t = \<lparr>category = c, title = t, description = [], tags = [], img_url = []\<rparr>"

definition label_for :: "string \<Rightarrow> string \<Rightarrow> qa_dict list \<Rightarrow> Label" where
  "label_for c t qas =
     \<lparr>infographic_title = t, l_category = c, l_tags = [], qa_pairs = qas,
      labeled_by = ''user'', labeled_at = 0\<rparr>"

definition catalog3 :: "Infographic list" where
  "catalog3 = [item ''Maps'' ''A'', item ''Maps'' ''B'', item ''Charts'' ''C'']"

definition qa_ok :: qa_dict where
  "qa_ok = [''question'' \<mapsto> ''q'', ''answer'' \<mapsto> ''a'']"

section \<open>The validation of a label\<close>

lemma check_qa_pairs_Inr_iff:
  "check_qa_pairs qas = Inr () \<longleftrightarrow>
     (\<forall>qa \<in> set qas. truthy (qa ''question'') \<and> truthy (qa ''answer''))"
  by (induction qas) auto

lemma check_qa_pairs_Inl:
  "check_qa_pairs qas = Inl e \<Longrightarrow>
     e = HTTPException 400 ''Each QA pair must have both question and answer''"
  by (induction qas) (auto split: if_splits)

lemma add_label_accepted:
  "check_qa_pairs (qa_pairs l) = Inr () \<Longrightarrow>
     add_label l st = (Inr ''Label submitted successfully'', st\<lparr>labels := labels st @ [l]\<rparr>)"
  by (simp add: add_label_def)

lemma add_label_Inr_state:
  "fst (add_label l st) = Inr m \<Longrightarrow> snd (add_label l st) = st\<lparr>labels := labels st @ [l]\<rparr>"
  by (cases "check_qa_pairs (qa_pairs l)") (simp_all add: add_label_def)

lemma add_label_Inl_state:
  "fst (add_label l st) = Inl e \<Longrightarrow> snd (add_label l st) = st"
  by (cases "check_qa_pairs (qa_pairs l)") (simp_all add: add_label_def)

text \<open>What the backend does reject: a pair with a missing or empty question or answer.\<close>

lemma add_label_empty_field_rejected:
  assumes "qa \<in> set (qa_pairs l)"
    and "qa ''question'' \<in> {None, Some []} \<or> qa ''answer'' \<in> {None, Some []}"
  shows "add_label l st =
     (Inl (HTTPException 400 ''Each QA pair must have both question and answer''), st)"
proof -
  have "\<not> (truthy (qa ''question'') \<and> truthy (qa ''answer''))"
    using assms(2) by (auto simp: truthy_def)
  with assms(1) have "check_qa_pairs (qa_pairs l) \<noteq> Inr ()"
    by (auto simp: check_qa_pairs_Inr_iff)
  then obtain e where e: "check_qa_pairs (qa_pairs l) = Inl e"
    by (cases "check_qa_pairs (qa_pairs l)") auto
  with check_qa_pairs_Inl [OF e] show ?thesis
    by (simp add: add_label_def)
qed

lemma dropWhile_all: "(\<forall>x \<in> set (dropWhile P xs). P x) \<longleftrightarrow> (\<forall>x \<in> set xs. P x)"
  by (induction xs) auto

lemma strip_blank_iff: "strip s = [] \<longleftrightarrow> (\<forall>c \<in> set s. isspace c)"
  by (simp add: strip_def dropWhile_eq_Nil_conv dropWhile_all)

lemma strip_nonempty: "strip s \<noteq> [] \<Longrightarrow> s \<noteq> []"
  by (auto simp: strip_def)

text \<open>
  Pairs whose two fields are present and not blank after trimming are accepted, and the
  label is appended.
\<close>

lemma add_label_nonblank_accepted:
  assumes "\<forall>qa \<in> set (qa_pairs l). \<exists>q a. qa ''question'' = Some q \<and> qa ''answer'' = Some a
             \<and> strip q \<noteq> [] \<and> strip a \<noteq> []"
  shows "add_label l st =
     (Inr ''Label submitted successfully'', st\<lparr>labels := labels st @ [l]\<rparr>)"
proof -
  have "truthy (qa ''question'') \<and> truthy (qa ''answer'')" if "qa \<in> set (qa_pairs l)" for qa
    using assms that by (fastforce simp: truthy_def dest: strip_nonempty)
  then have "check_qa_pairs (qa_pairs l) = Inr ()"
    by (simp add: check_qa_pairs_Inr_iff)
  then show ?thesis by (rule add_label_accepted)
qed

text \<open>
  The form enforces both rules before it posts: it trims, and it refuses to post when no
  valid pair is left. Whatever it posts is a non-empty list that the backend accepts.
\<close>

lemma form_qa_pairs_posted:
  assumes "form_qa_pairs pairs = Inr ds"
  shows "ds \<noteq> [] \<and> check_qa_pairs ds = Inr ()"
proof -
  from assms have ds: "ds = map qa_dict_of (valid_qa_pairs pairs)"
    and ne: "valid_qa_pairs pairs \<noteq> []"
    by (auto simp: form_qa_pairs_def Let_def split: if_splits)
  have "truthy (qa_dict_of qa ''question'') \<and> truthy (qa_dict_of qa ''answer'')"
    if "qa \<in> set (valid_qa_pairs pairs)" for qa
    using that by (auto simp: valid_qa_pairs_def qa_dict_of_def truthy_def dest: strip_nonempty)
  then show ?thesis using ds ne by (auto simp: check_qa_pairs_Inr_iff)
qed

lemma form_qa_pairs_blank:
  "(\<forall>qa \<in> set pairs. strip (question qa) = [] \<or> strip (answer qa) = []) \<Longrightarrow>
     form_qa_pairs pairs = Inl ''Please add at least one valid question-answer pair''"
  by (auto simp: form_qa_pairs_def valid_qa_pairs_def Let_def filter_empty_conv)

text \<open>
  Claim C1: a label whose \<open>qa_pairs\<close> is empty is refused with a validation error and
  is not stored. The backend does not do this. Its loop over the pairs has nothing to
  check, nothing is raised, and the label is appended: posted to a store with the three
  items and no label, the label with no pair is answered with the success message and is
  the one label of the store afterwards. The form refuses such a submission
  (\<open>form_qa_pairs_blank\<close>); the backend, reached directly, does not.
\<close>

theorem add_label_empty_qa_pairs_stored:
  "add_label (label_for ''Maps'' ''A'' []) \<lparr>infographics = catalog3, labels = []\<rparr> =
     (Inr ''Label submitted successfully'',
      \<lparr>infographics = catalog3, labels = [label_for ''Maps'' ''A'' []]\<rparr>)"
  by (simp add: add_label_def label_for_def)

text \<open>
  Claim C2: a pair whose question or answer is blank after trimming makes the submission
  fail, and pairs that are not blank after trimming are accepted. The second half holds
  (\<open>add_label_nonblank_accepted\<close>), and a missing or empty field is refused
  (\<open>add_label_empty_field_rejected\<close>), but the backend tests the fields without
  trimming them: a question of one space is blank after trimming, and the label that
  carries it is answered with the success message and stored.
\<close>

theorem add_label_blank_question_stored:
  "strip '' '' = [] \<and>
   add_label (label_for ''Maps'' ''A'' [[''question'' \<mapsto> '' '', ''answer'' \<mapsto> ''x'']])
       \<lparr>infographics = catalog3, labels = []\<rparr> =
     (Inr ''Label submitted successfully'',
      \<lparr>infographics = catalog3,
       labels = [label_for ''Maps'' ''A'' [[''question'' \<mapsto> '' '', ''answer'' \<mapsto> ''x'']]]\<rparr>)"
  by (simp add: add_label_def label_for_def truthy_def strip_def isspace_def)

section \<open>The unlabeled view\<close>

lemma get_unlabeled_infographics_filter:
  "get_unlabeled_infographics cat st =
     filter (\<lambda>info. title info \<notin> infographic_title ` set (labels st) \<and>
                    (truthy cat \<longrightarrow> cat = Some (category info)))
       (infographics st)"
  by (auto simp: get_unlabeled_infographics_def Let_def intro: filter_cong)

text \<open>
  Claim C3, as stated: an item is in the unlabeled result exactly when no label names its
  title, a category argument restricts the result to that category, and the order is the
  catalog's. The guard \<open>if category:\<close> takes the empty string for no argument, so
  asked for the category \<open>""\<close> the query answers with items of other categories: item A
  of category Maps is in the result.
\<close>

theorem unlabeled_empty_category_counterexample:
  "item ''Maps'' ''A'' \<in> set (get_unlabeled_infographics (Some '''')
       \<lparr>infographics = catalog3, labels = []\<rparr>) \<and>
   category (item ''Maps'' ''A'') \<noteq> ''''"
  by (simp add: get_unlabeled_infographics_def truthy_def catalog3_def item_def)

text \<open>
  Claim C3, amended: the unlabeled result is the catalog, in catalog order, filtered to
  the items whose title no label names and, when the category argument is present and
  not the empty string, whose category is the argument. An absent or empty category
  argument restricts nothing.
\<close>

theorem unlabeled_characterisation:
  "get_unlabeled_infographics cat st =
     filter (\<lambda>info. (\<forall>l \<in> set (labels st). infographic_title l \<noteq> title info) \<and>
                    (cat \<noteq> None \<and> cat \<noteq> Some '''' \<longrightarrow> cat = Some (category info)))
       (infographics st)"
  unfolding get_unlabeled_infographics_filter
  by (rule filter_cong) (auto simp: truthy_def image_iff split: option.splits)

theorem unlabeled_characterisation_witness:
  "get_unlabeled_infographics (Some ''Maps'')
       \<lparr>infographics = catalog3, labels = [label_for ''Maps'' ''A'' [qa_ok]]\<rparr> =
     [item ''Maps'' ''B''] \<and>
   get_unlabeled_infographics None
       \<lparr>infographics = catalog3, labels = [label_for ''Maps'' ''A'' [qa_ok]]\<rparr> =
     [item ''Maps'' ''B'', item ''Charts'' ''C'']"
  using unlabeled_characterisation [of "Some ''Maps''"
      "\<lparr>infographics = catalog3, labels = [label_for ''Maps'' ''A'' [qa_ok]]\<rparr>"]
    unlabeled_characterisation [of None
      "\<lparr>infographics = catalog3, labels = [label_for ''Maps'' ''A'' [qa_ok]]\<rparr>"]
  by (simp add: catalog3_def item_def label_for_def)

lemma get_unlabeled_after_add_label:
  assumes "fst (add_label l st) = Inr m"
  shows "get_unlabeled_infographics cat (snd (add_label l st)) =
           filter (\<lambda>info. title info \<noteq> infographic_title l) (get_unlabeled_infographics cat st)"
  by (auto simp: add_label_Inr_state [OF assms] get_unlabeled_infographics_filter
      intro: filter_cong)

text \<open>
  Claim C7: for every state, every accepted label and every category argument, an item
  of the unlabeled result after the submission was in the unlabeled result before it.
\<close>

theorem add_label_unlabeled_monotone:
  assumes "fst (add_label l st) = Inr m"
    and "info \<in> set (get_unlabeled_infographics cat (snd (add_label l st)))"
  shows "info \<in> set (get_unlabeled_infographics cat st)"
  using assms(2) by (simp add: get_unlabeled_after_add_label [OF assms(1)])

theorem add_label_unlabeled_monotone_witness:
  "fst (add_label (label_for ''Maps'' ''A'' [qa_ok]) \<lparr>infographics = catalog3, labels = []\<rparr>) =
     Inr ''Label submitted successfully'' \<and>
   item ''Maps'' ''B'' \<in> set (get_unlabeled_infographics (Some ''Maps'')
     (snd (add_label (label_for ''Maps'' ''A'' [qa_ok])
        \<lparr>infographics = catalog3, labels = []\<rparr>))) \<and>
   item ''Maps'' ''B'' \<in> set (get_unlabeled_infographics (Some ''Maps'')
     \<lparr>infographics = catalog3, labels = []\<rparr>)"
proof -
  let ?st = "\<lparr>infographics = catalog3, labels = []\<rparr>"
  let ?l = "label_for ''Maps'' ''A'' [qa_ok]"
  have h1: "fst (add_label ?l ?st) = Inr ''Label submitted successfully''"
    by (simp add: add_label_def label_for_def qa_ok_def truthy_def)
  have h2: "item ''Maps'' ''B'' \<in> set (get_unlabeled_infographics (Some ''Maps'')
      (snd (add_label ?l ?st)))"
    by (simp add: add_label_def label_for_def qa_ok_def truthy_def
        get_unlabeled_infographics_def catalog3_def item_def)
  from add_label_unlabeled_monotone [OF h1 h2] h1 h2 show ?thesis by simp
qed

section \<open>Category statistics\<close>

lemma fold_stats:
  "fold (\<lambda>c stats. stats(c \<mapsto> f c)) cs m c = (if c \<in> set cs then Some (f c) else m c)"
  by (induction cs arbitrary: m) auto

lemma get_category_stats_lookup:
  "get_category_stats st c =
     (if c \<in> category ` set (infographics st) then Some (stat_of st c) else None)"
  by (simp add: get_category_stats_def fold_stats)

text \<open>
  Claim C4: for every category \<open>c\<close> of the catalog, the statistics have an entry for
  \<open>c\<close> whose total is the number of catalog items of category \<open>c\<close> and whose labeled
  count is the number of label records whose category field is \<open>c\<close>. In the witness two
  labels on the one item A both count.
\<close>

theorem category_stats_counts:
  assumes "c \<in> set (map category (infographics st))"
  shows "\<exists>s. get_category_stats st c = Some s \<and>
           total_stat s = int (length (filter (\<lambda>info. category info = c) (infographics st))) \<and>
           labeled_stat s = int (length (filter (\<lambda>l. l_category l = c) (labels st)))"
  using assms by (simp add: get_category_stats_lookup stat_of_def Let_def)

theorem category_stats_counts_witness:
  "''Maps'' \<in> set (map category catalog3) \<and>
   (\<exists>s. get_category_stats \<lparr>infographics = catalog3,
            labels = [label_for ''Maps'' ''A'' [qa_ok], label_for ''Maps'' ''A'' [qa_ok]]\<rparr>
          ''Maps'' = Some s \<and> total_stat s = 2 \<and> labeled_stat s = 2)"
proof -
  let ?st = "\<lparr>infographics = catalog3,
      labels = [label_for ''Maps'' ''A'' [qa_ok], label_for ''Maps'' ''A'' [qa_ok]]\<rparr>"
  have h: "''Maps'' \<in> set (map category (infographics ?st))"
    by (simp add: catalog3_def item_def)
  from category_stats_counts [OF h] h show ?thesis
    by (simp add: catalog3_def item_def label_for_def)
qed

text \<open>
  Claim C5: for every category \<open>c\<close> of the catalog, the unlabeled count of its entry is
  the integer difference of total and labeled, not clamped: it is negative whenever
  the labels of category \<open>c\<close> outnumber the items of category \<open>c\<close>.
\<close>

theorem category_stats_unlabeled:
  assumes "c \<in> set (map category (infographics st))"
  shows "\<exists>s. get_category_stats st c = Some s \<and>
           unlabeled_stat s = total_stat s - labeled_stat s \<and>
           unlabeled_stat s =
             int (length (filter (\<lambda>info. category info = c) (infographics st)))
             - int (length (filter (\<lambda>l. l_category l = c) (labels st))) \<and>
           (length (filter (\<lambda>info. category info = c) (infographics st))
              < length (filter (\<lambda>l. l_category l = c) (labels st)) \<longrightarrow> unlabeled_stat s < 0)"
  using assms by (simp add: get_category_stats_lookup stat_of_def Let_def)

theorem category_stats_unlabeled_witness:
  "''Charts'' \<in> set (map category catalog3) \<and>
   (\<exists>s. get_category_stats \<lparr>infographics = catalog3,
            labels = [label_for ''Charts'' ''C'' [qa_ok], label_for ''Charts'' ''C'' [qa_ok]]\<rparr>
          ''Charts'' = Some s \<and> unlabeled_stat s = total_stat s - labeled_stat s \<and>
          unlabeled_stat s = - 1 \<and> unlabeled_stat s < 0)"
proof -
  let ?st = "\<lparr>infographics = catalog3,
      labels = [label_for ''Charts'' ''C'' [qa_ok], label_for ''Charts'' ''C'' [qa_ok]]\<rparr>"
  have h: "''Charts'' \<in> set (map category (infographics ?st))"
    by (simp add: catalog3_def item_def)
  from category_stats_unlabeled [OF h] h show ?thesis
    by (simp add: catalog3_def item_def label_for_def)
qed

section \<open>What a mutation leaves alone\<close>

text \<open>
  Claim C6: for every state and label, when \<open>add_label\<close> fails the state after the call
  is the state before it: the label store and the catalog are unchanged.
\<close>

theorem add_label_failure_keeps_state:
  "fst (add_label l st) = Inl e \<Longrightarrow>
     snd (add_label l st) = st \<and>
     labels (snd (add_label l st)) = labels st \<and>
     infographics (snd (add_label l st)) = infographics st"
  by (simp add: add_label_Inl_state)

theorem add_label_failure_keeps_state_witness:
  "fst (add_label (label_for ''Maps'' ''A'' [[''question'' \<mapsto> ''q'']])
          \<lparr>infographics = catalog3, labels = []\<rparr>) =
     Inl (HTTPException 400 ''Each QA pair must have both question and answer'') \<and>
   snd (add_label (label_for ''Maps'' ''A'' [[''question'' \<mapsto> ''q'']])
          \<lparr>infographics = catalog3, labels = []\<rparr>) =
     \<lparr>infographics = catalog3, labels = []\<rparr>"
proof -
  have h: "fst (add_label (label_for ''Maps'' ''A'' [[''question'' \<mapsto> ''q'']])
          \<lparr>infographics = catalog3, labels = []\<rparr>) =
     Inl (HTTPException 400 ''Each QA pair must have both question and answer'')"
    by (simp add: add_label_def label_for_def truthy_def)
  from add_label_failure_keeps_state [OF h] h show ?thesis by simp
qed

text \<open>
  Claim C10: a successful \<open>add_label\<close> leaves the catalog as it was and appends the label
  to the label store; \<open>add_infographic\<close> leaves the label store as it was and appends the
  item to the catalog.
\<close>

theorem mutations_frame:
  "(fst (add_label l st) = Inr m \<longrightarrow>
      infographics (snd (add_label l st)) = infographics st \<and>
      labels (snd (add_label l st)) = labels st @ [l]) \<and>
   labels (snd (add_infographic i st)) = labels st \<and>
   infographics (snd (add_infographic i st)) = infographics st @ [i]"
  by (auto simp: add_label_Inr_state add_infographic_def)

theorem mutations_frame_witness:
  "fst (add_label (label_for ''Maps'' ''A'' [qa_ok]) \<lparr>infographics = catalog3, labels = []\<rparr>) =
     Inr ''Label submitted successfully'' \<and>
   infographics (snd (add_label (label_for ''Maps'' ''A'' [qa_ok])
     \<lparr>infographics = catalog3, labels = []\<rparr>)) = catalog3 \<and>
   labels (snd (add_label (label_for ''Maps'' ''A'' [qa_ok])
     \<lparr>infographics = catalog3, labels = []\<rparr>)) = [label_for ''Maps'' ''A'' [qa_ok]] \<and>
   labels (snd (add_infographic (item ''Maps'' ''D'')
     \<lparr>infographics = catalog3, labels = []\<rparr>)) = []"
proof -
  let ?st = "\<lparr>infographics = catalog3, labels = []\<rparr>"
  let ?l = "label_for ''Maps'' ''A'' [qa_ok]"
  have h: "fst (add_label ?l ?st) = Inr ''Label submitted successfully''"
    by (simp add: add_label_def label_for_def qa_ok_def truthy_def)
  from mutations_frame [of ?l ?st "''Label submitted successfully''" "item ''Maps'' ''D''"] h
  show ?thesis by simp
qed

section \<open>Loading and reloading\<close>











text \<open>
  Claim C9, as stated: whenever the source is missing, unreadable or structurally
  invalid, the loader returns the empty catalog. The loader returns whatever the
  document holds under \<open>"metadata"\<close> and never looks at it. A document whose one
  entry has a title and no other field is structurally invalid as a catalog, and the
  loader returns that entry.
\<close>

theorem load_malformed_entry_counterexample:
  "\<not> is_infographic (JObject [(''title'', JString ''A'')]) \<and>
   load_data_from_json
       (Inr (JObject [(''metadata'', JArray [JObject [(''title'', JString ''A'')]])])) =
     JArray [JObject [(''title'', JString ''A'')]]"
  by (simp add: is_infographic_def load_data_from_json_def load_body_def)

text \<open>
  Claim C9, amended: the loader returns a value for every source and raises nothing. It
  returns the empty list whenever opening or decoding the file raised, whenever the
  decoded document is not a dictionary (a list, a string, a number, a truth value or
  null), and whenever the dictionary has no entry \<open>"metadata"\<close>; otherwise it returns
  the value found under \<open>"metadata"\<close>, whole and unexamined.
\<close>

theorem load_data_from_json_fallback:
  "(\<forall>e. load_data_from_json (Inl e) = JArray []) \<and>
   (\<forall>xs. load_data_from_json (Inr (JArray xs)) = JArray []) \<and>
   (\<forall>s. load_data_from_json (Inr (JString s)) = JArray []) \<and>
   (\<forall>n. load_data_from_json (Inr (JNumber n)) = JArray []) \<and>
   (\<forall>b. load_data_from_json (Inr (JBool b)) = JArray []) \<and>
   load_data_from_json (Inr JNull) = JArray [] \<and>
   (\<forall>kvs. map_of kvs ''metadata'' = None \<longrightarrow>
      load_data_from_json (Inr (JObject kvs)) = JArray []) \<and>
   (\<forall>kvs v. map_of kvs ''metadata'' = Some v \<longrightarrow>
      load_data_from_json (Inr (JObject kvs)) = v)"
  by (simp add: load_data_from_json_def load_body_def)

theorem load_data_from_json_fallback_witness:
  "load_data_from_json (Inl FileNotFoundError) = JArray [] \<and>
   load_data_from_json (Inr (JObject [(''items'', JArray (map model_dump catalog3))])) =
     JArray [] \<and>
   load_data_from_json (Inr (JObject [(''metadata'', JArray (map model_dump catalog3))])) =
     JArray (map model_dump catalog3) \<and>
   load_data_from_json (Inr (JObject [(''metadata'', JNumber 5)])) = JNumber 5"
proof -
  have h1: "map_of [(''items'', JArray (map model_dump catalog3))] ''metadata'' = None"
    by simp
  have h2: "map_of [(''metadata'', JArray (map model_dump catalog3))] ''metadata'' =
      Some (JArray (map model_dump catalog3))"
    by simp
  have h3: "map_of [(''metadata'', JNumber 5)] ''metadata'' = Some (JNumber 5)"
    by simp
  from load_data_from_json_fallback h1 h2 h3 show ?thesis by blast
qed

end
